theory Spec2Isabelle
  imports Complex_Main
begin

section \<open>Aligning a mobile base to a fiducial marker: \<^verbatim>\<open>perception/align_to_aruco.py\<close>\<close>

text \<open>
  The development embeds the three parts of the script: the correction computed by
  \<^verbatim>\<open>AlignToAruco.compute_difference\<close>, the three motion commands of
  \<^verbatim>\<open>AlignToAruco.align_to_marker\<close>, and the polling loop of \<^verbatim>\<open>main\<close>.

  Python floats are idealised as real numbers: \<open>+\<close>, \<open>*\<close>, \<open>sqrt\<close> and the arctangent are the
  exact operations, so rounding, overflow, NaN and signed zeros are outside that model.
  Where a statement is about the finiteness of a result, the correction is embedded a
  second time on doubles that can overflow.
\<close>

subsection \<open>Data\<close>

text \<open>\<^verbatim>\<open>geometry_msgs/Vector3\<close>, \<^verbatim>\<open>Quaternion\<close> and \<^verbatim>\<open>Transform\<close>, the part of
  \<^verbatim>\<open>TransformStamped\<close> the script reads (\<^verbatim>\<open>trans_base.transform\<close>).\<close>

record vector3 =
  vx :: real
  vy :: real
  vz :: real

record quaternion =
  qx :: real
  qy :: real
  qz :: real
  qw :: real

record transform =
  translation :: vector3
  rotation :: quaternion

text \<open>A column of four numbers (a numpy array of shape 4x1) and a 4x4 matrix as its four rows.\<close>

type_synonym vec4 = "real \<times> real \<times> real \<times> real"
type_synonym mat4 = "vec4 \<times> vec4 \<times> vec4 \<times> vec4"

fun dot4 :: "vec4 \<Rightarrow> vec4 \<Rightarrow> real" where
  "dot4 (a0, a1, a2, a3) (b0, b1, b2, b3) = a0 * b0 + a1 * b1 + a2 * b2 + a3 * b3"

text \<open>\<^verbatim>\<open>np.matmul(R, v)\<close> for a 4x4 \<open>R\<close> and a 4x1 \<open>v\<close>.\<close>

fun matmul :: "mat4 \<Rightarrow> vec4 \<Rightarrow> vec4" where
  "matmul (r0, r1, r2, r3) v = (dot4 r0 v, dot4 r1 v, dot4 r2 v, dot4 r3 v)"

text \<open>\<^verbatim>\<open>X + P\<close> on two 4x1 arrays.\<close>

fun vec_add :: "vec4 \<Rightarrow> vec4 \<Rightarrow> vec4" where
  "vec_add (a0, a1, a2, a3) (b0, b1, b2, b3) = (a0 + b0, a1 + b1, a2 + b2, a3 + b3)"

text \<open>\<^verbatim>\<open>P_base[3, 0] = 1\<close>.\<close>

fun set_homogeneous :: "vec4 \<Rightarrow> vec4" where
  "set_homogeneous (a0, a1, a2, a3) = (a0, a1, a2, 1)"

fun row0 :: "vec4 \<Rightarrow> real" where
  "row0 (a0, a1, a2, a3) = a0"

fun row1 :: "vec4 \<Rightarrow> real" where
  "row1 (a0, a1, a2, a3) = a1"

subsection \<open>Library functions the script calls\<close>

text \<open>
  \<^verbatim>\<open>math.atan2(y, x)\<close> on real numbers: the angle of the point \<open>(x, y)\<close>, with the C
  library's value \<open>0\<close> at the origin.
\<close>

definition atan2 :: "real \<Rightarrow> real \<Rightarrow> real" where
  "atan2 y x =
     (if 0 < x then arctan (y / x)
      else if x < 0 then (if 0 \<le> y then arctan (y / x) + pi else arctan (y / x) - pi)
      else if 0 < y then pi / 2
      else if y < 0 then - (pi / 2)
      else 0)"

text \<open>
  Modelled from the spec: \<^verbatim>\<open>tf_transformations.quaternion_matrix\<close> is a library function
  outside the repository. The spec names it the standard quaternion to rotation matrix
  formula with no translation component; the definition is that formula as the library
  computes it for an argument \<open>(x, y, z, w)\<close>: the squared norm \<open>Nq\<close> scales the products by
  \<open>2 / Nq\<close> (so that a unit quaternion has factor \<open>2\<close>), and a quaternion of norm below
  the machine epsilon (\<open>1 / 2 ^ 52\<close> for a double) gives the identity.
\<close>

definition float_eps :: real where
  "float_eps = 1 / 2 ^ 52"

definition quaternion_matrix :: "real \<times> real \<times> real \<times> real \<Rightarrow> mat4" where
  "quaternion_matrix q =
     (case q of (x, y, z, w) \<Rightarrow>
        let Nq = w * w + x * x + y * y + z * z in
        if Nq < float_eps
        then ((1, 0, 0, 0), (0, 1, 0, 0), (0, 0, 1, 0), (0, 0, 0, 1))
        else
          let s = 2 / Nq;
              X = x * s; Y = y * s; Z = z * s;
              wX = w * X; wY = w * Y; wZ = w * Z;
              xX = x * X; xY = x * Y; xZ = x * Z;
              yY = y * Y; yZ = y * Z; zZ = z * Z
          in ((1 - (yY + zZ), xY - wZ, xZ + wY, 0),
              (xY + wZ, 1 - (xX + zZ), yZ - wX, 0),
              (xZ - wY, yZ + wX, 1 - (xX + yY), 0),
              (0, 0, 0, 1)))"

text \<open>
  Modelled from the spec: \<^verbatim>\<open>tf_transformations.euler_from_quaternion\<close> is a library
  function outside the repository. The spec names it a roll-pitch-yaw decomposition of
  which only the yaw is used; the definition reads the three angles of the static x-y-z
  convention off the rotation matrix \<open>M\<close> of the quaternion, as the library does: with
  \<open>cy = sqrt (m00 * m00 + m10 * m10)\<close>, the yaw is \<open>atan2 m10 m00\<close>, and \<open>0\<close> in gimbal lock
  (\<open>cy\<close> not above four machine epsilons).
\<close>

definition euler_from_quaternion :: "real \<times> real \<times> real \<times> real \<Rightarrow> real \<times> real \<times> real" where
  "euler_from_quaternion q =
     (case quaternion_matrix q of
        ((m00, m01, m02, m03), (m10, m11, m12, m13), (m20, m21, m22, m23), r3) \<Rightarrow>
          let cy = sqrt (m00 * m00 + m10 * m10) in
          if cy > 4 * float_eps
          then (atan2 m21 m22, atan2 (- m20) cy, atan2 m10 m00)
          else (atan2 (- m12) m11, atan2 (- m20) cy, 0))"

subsection \<open>The correction: \<^verbatim>\<open>AlignToAruco.compute_difference\<close>\<close>

text \<open>
  The method reads \<^verbatim>\<open>self.trans_base\<close> and \<^verbatim>\<open>self.offset\<close>; they are the two arguments.
  The result is the triple \<^verbatim>\<open>(phi, dist, z_rot_base)\<close> the method returns.
\<close>

definition compute_difference :: "transform \<Rightarrow> real \<Rightarrow> real \<times> real \<times> real" where
  "compute_difference trans_base offset =
     (let x = qx (rotation trans_base);
          y = qy (rotation trans_base);
          z = qz (rotation trans_base);
          w = qw (rotation trans_base);
          R = quaternion_matrix (x, y, z, w);
          P_dash = (0, - offset, 0, 1);
          P = (vx (translation trans_base), vy (translation trans_base), 0, 1);
          X = matmul R P_dash;
          P_base = set_homogeneous (vec_add X P);
          base_position_x = row0 P_base;
          base_position_y = row1 P_base;
          phi = atan2 base_position_y base_position_x;
          dist = sqrt (base_position_x ^ 2 + base_position_y ^ 2);
          z_rot_base = snd (snd (euler_from_quaternion (x, y, z, w)));
          z_rot_base = - phi + z_rot_base + pi
      in (phi, dist, z_rot_base))"

subsection \<open>The correction on doubles: \<^verbatim>\<open>AlignToAruco.compute_difference\<close> with overflow\<close>

text \<open>
  The same method on IEEE 754 doubles, as far as overflow goes. A double is a finite real,
  one of the two infinities or NaN. An operation on finite values returns its exact result
  when that is smaller in magnitude than \<open>2^1024 - 2^970\<close>, the least magnitude that rounds
  to an infinity, and the infinity of its sign otherwise; on infinities and NaN it follows
  the standard. The rounding of a finite result, underflow and the sign of zero are not
  modelled. The fields of the transform and the offset are finite doubles, given as the
  reals they denote; the results of the library functions \<open>quaternion_matrix\<close> and
  \<open>euler_from_quaternion\<close> are taken from the exact model.
\<close>

datatype double = Fin real | PInf | NInf | NaN

text \<open>The least magnitude that rounds to an infinity, and the result of an operation whose
  exact value is \<open>r\<close>.\<close>

definition overflow_threshold :: real where
  "overflow_threshold = 2 ^ 1024 - 2 ^ 970"

definition round_overflow :: "real \<Rightarrow> double" where
  "round_overflow r =
     (if overflow_threshold \<le> r then PInf
      else if r \<le> - overflow_threshold then NInf
      else Fin r)"


fun fadd :: "double \<Rightarrow> double \<Rightarrow> double" where
  "fadd (Fin a) (Fin b) = round_overflow (a + b)"
| "fadd NaN b = NaN"
| "fadd a NaN = NaN"
| "fadd PInf NInf = NaN"
| "fadd NInf PInf = NaN"
| "fadd PInf b = PInf"
| "fadd a PInf = PInf"
| "fadd NInf b = NInf"
| "fadd a NInf = NInf"














subsection \<open>The motion sequence: \<^verbatim>\<open>AlignToAruco.align_to_marker\<close>\<close>

text \<open>\<^verbatim>\<open>action_msgs/GoalStatus\<close>: the terminal status of a goal (\<^verbatim>\<open>result.status\<close>).\<close>

datatype goal_status =
    STATUS_UNKNOWN
  | STATUS_ACCEPTED
  | STATUS_EXECUTING
  | STATUS_CANCELING
  | STATUS_SUCCEEDED
  | STATUS_CANCELED
  | STATUS_ABORTED

text \<open>The \<^verbatim>\<open>FollowJointTrajectory.Goal\<close> the script builds: one joint, one point.\<close>

record trajectory_goal =
  joint_names :: "string list"
  positions :: "real list"
  time_from_start :: real

text \<open>
  What the trajectory server answers to one goal: \<^verbatim>\<open>goal_handle.accepted\<close> is false, or
  the goal is accepted and \<^verbatim>\<open>result.status\<close> is its terminal status. The server is a
  state transformer over a state of its own, so that its answer may depend on every
  goal it has seen.
\<close>

datatype response = Rejected | Accepted goal_status

type_synonym 's actuator = "'s \<Rightarrow> trajectory_goal \<Rightarrow> response \<times> 's"

text \<open>The entries appended to the list \<^verbatim>\<open>missing\<close> of \<^verbatim>\<open>main\<close>: the frame pair, named by
  the tag, or the word \<^verbatim>\<open>exception\<close>.\<close>

datatype attempt = Frame_missing string | Exception_entry

text \<open>The log messages of the script, with the values they format.\<close>

datatype message =
    Waiting_for_transforms
  | Found_tag
  | Robot_will_move
  | Lookup_error string
  | Could_not_detect
  | Timeout_waiting "attempt list"
  | Unable_to_connect
  | Sending_goal string real
  | Goal_rejected string
  | Goal_not_succeeded string goal_status
  | Goal_succeeded string

datatype level = Info | Warn | Error

text \<open>
  The observable actions of a run, in order: log lines, the \<^verbatim>\<open>print\<close> of the loop,
  \<^verbatim>\<open>send_goal_async\<close>, \<^verbatim>\<open>get_result_async\<close>, \<^verbatim>\<open>rclpy.spin_once\<close>, \<^verbatim>\<open>time.sleep\<close>, the
  construction of the action client and \<^verbatim>\<open>rclpy.shutdown\<close>.
\<close>

datatype event =
    Log level message
  | Print_lookup string
  | Send_goal trajectory_goal
  | Get_result trajectory_goal
  | Spin_once
  | Sleep real
  | Create_client
  | Shutdown

text \<open>
  The inner function \<^verbatim>\<open>send_base_goal_blocking(joint_name, inc)\<close>. It returns \<^verbatim>\<open>None\<close>
  on every path, so the model returns only the state it leaves: the server's state and
  the actions so far.
\<close>

definition send_base_goal_blocking ::
    "'s actuator \<Rightarrow> 's \<times> event list \<Rightarrow> string \<Rightarrow> real \<Rightarrow> 's \<times> event list" where
  "send_base_goal_blocking act st joint_name inc =
     (case st of (s, tr) \<Rightarrow>
        let goal = \<lparr>joint_names = [joint_name], positions = [inc], time_from_start = 5\<rparr>;
            tr = tr @ [Log Info (Sending_goal joint_name inc), Send_goal goal]
        in (case act s goal of
              (Rejected, s) \<Rightarrow> (s, tr @ [Log Error (Goal_rejected joint_name)])
            | (Accepted status, s) \<Rightarrow>
                (let tr = tr @ [Get_result goal] in
                 if status \<noteq> STATUS_SUCCEEDED
                 then (s, tr @ [Log Warn (Goal_not_succeeded joint_name status)])
                 else (s, tr @ [Log Info (Goal_succeeded joint_name)]))))"

definition align_to_marker ::
    "'s actuator \<Rightarrow> 's \<times> event list \<Rightarrow> transform \<Rightarrow> real \<Rightarrow> 's \<times> event list" where
  "align_to_marker act st trans_base offset =
     (case compute_difference trans_base offset of
        (phi, dist', final_theta) \<Rightarrow>
          let st = send_base_goal_blocking act st ''rotate_mobile_base'' phi;
              st = send_base_goal_blocking act st ''translate_mobile_base'' dist';
              st = send_base_goal_blocking act st ''rotate_mobile_base'' final_theta
          in st)"

text \<open>The goals submitted in a run, in order.\<close>

fun submitted :: "event list \<Rightarrow> trajectory_goal list" where
  "submitted [] = []"
| "submitted (Send_goal g # tr) = g # submitted tr"
| "submitted (e # tr) = submitted tr"

subsection \<open>The acquisition loop and \<^verbatim>\<open>main\<close>\<close>

text \<open>
  One pass through the \<^verbatim>\<open>try\<close> block: \<^verbatim>\<open>can_transform\<close> is false, or it is true and
  \<^verbatim>\<open>lookup_transform\<close> returns a transform, or one of the two raises a
  \<^verbatim>\<open>TransformException\<close> with a text.
\<close>

datatype lookup_result = Unavailable | Found transform | Raised string

text \<open>
  What a run of \<^verbatim>\<open>main\<close> meets, by the number of the loop iteration (from 0): the value
  of \<^verbatim>\<open>rclpy.ok()\<close> at the head of the loop, the outcome of the lookup, the wall-clock
  time that passes from the head of the iteration to its reading of \<^verbatim>\<open>time.time()\<close>,
  and the time \<^verbatim>\<open>rclpy.spin_once\<close> takes. \<open>start_clock\<close> is the value of \<^verbatim>\<open>time.time()\<close>
  stored in \<^verbatim>\<open>start_time\<close>, \<open>aruco_tag_name\<close> the value of the parameter of that name,
  and \<open>server_ready\<close> the answer of \<^verbatim>\<open>wait_for_server\<close>.
\<close>

record world =
  aruco_tag_name :: string
  rclpy_ok :: "nat \<Rightarrow> bool"
  lookup_outcome :: "nat \<Rightarrow> lookup_result"
  lookup_time :: "nat \<Rightarrow> real"
  spin_time :: "nat \<Rightarrow> real"
  start_clock :: real
  server_ready :: bool

definition timeout_sec :: real where
  "timeout_sec = 120"

text \<open>The argument of \<^verbatim>\<open>time.sleep(1)\<close>.\<close>

definition poll_interval :: real where
  "poll_interval = 1"

text \<open>
  The \<^verbatim>\<open>try\<close> block of iteration \<open>i\<close>, with its \<^verbatim>\<open>except\<close> clause: the transform when the
  lookup succeeds (the loop then breaks), and otherwise the entry appended to \<^verbatim>\<open>missing\<close>:
  the frame pair when \<^verbatim>\<open>can_transform\<close> is false, the word \<^verbatim>\<open>exception\<close> (after a
  warning) when a \<^verbatim>\<open>TransformException\<close> is caught.
\<close>

definition try_lookup ::
    "world \<Rightarrow> nat \<Rightarrow> attempt list \<Rightarrow> event list
       \<Rightarrow> transform option \<times> attempt list \<times> event list" where
  "try_lookup e i missing tr =
     (let tr = tr @ [Print_lookup (aruco_tag_name e)] in
      case lookup_outcome e i of
        Found trans_base \<Rightarrow>
          (Some trans_base, missing, tr @ [Log Info Found_tag, Log Warn Robot_will_move])
      | Unavailable \<Rightarrow> (None, missing @ [Frame_missing (aruco_tag_name e)], tr)
      | Raised ex \<Rightarrow> (None, missing @ [Exception_entry], tr @ [Log Warn (Lookup_error ex)]))"

text \<open>
  The \<^verbatim>\<open>while rclpy.ok()\<close> loop, from the head of iteration \<open>i\<close> at wall-clock time \<open>now\<close>.
  The result is \<^verbatim>\<open>trans_base\<close> (\<open>None\<close> as in the source), the time at which the loop is
  left, the list \<^verbatim>\<open>missing\<close> and the actions. Nothing in the loop bounds the number of
  iterations but the clock, so a run that never leaves the loop has no result: the
  function then is \<open>None\<close>.
\<close>

partial_function (option) acquire ::
    "world \<Rightarrow> nat \<Rightarrow> real \<Rightarrow> attempt list \<Rightarrow> event list
       \<Rightarrow> (transform option \<times> real \<times> attempt list \<times> event list) option" where
  "acquire e i now missing tr =
     (if \<not> rclpy_ok e i then Some (None, now, missing, tr)
      else
        let now = now + lookup_time e i in
        case try_lookup e i missing tr of
          (Some trans_base, missing, tr) \<Rightarrow> Some (Some trans_base, now, missing, tr)
        | (None, missing, tr) \<Rightarrow>
            let tr = tr @ [Log Error Could_not_detect];
                elapsed = now - start_clock e
            in if elapsed > timeout_sec then Some (None, now, missing, tr)
               else acquire e (Suc i) (now + spin_time e i + poll_interval) missing
                      (tr @ [Spin_once, Sleep poll_interval]))"



subsection \<open>Notions used in the statements\<close>

text \<open>The invariant the spec puts on a \<open>Transform\<close>: its quaternion has unit length.\<close>

definition unit_quaternion :: "quaternion \<Rightarrow> bool" where
  "unit_quaternion q \<longleftrightarrow> qx q * qx q + qy q * qy q + qz q * qz q + qw q * qw q = 1"

text \<open>The yaw the script reads: the third angle of \<^verbatim>\<open>euler_from_quaternion([x, y, z, w])\<close>.\<close>

definition yaw_of :: "quaternion \<Rightarrow> real" where
  "yaw_of q = snd (snd (euler_from_quaternion (qx q, qy q, qz q, qw q)))"

text \<open>
  The three commands of the spec's sequence for a correction: rotate by \<open>phi\<close>, translate
  by \<open>dist\<close>, rotate by \<open>theta\<close>, each with the trajectory duration of 5 seconds.
\<close>

definition planned_goals :: "transform \<Rightarrow> real \<Rightarrow> trajectory_goal list" where
  "planned_goals trans_base offset =
     (case compute_difference trans_base offset of
        (phi, d, theta) \<Rightarrow>
          [\<lparr>joint_names = [''rotate_mobile_base''], positions = [phi], time_from_start = 5\<rparr>,
           \<lparr>joint_names = [''translate_mobile_base''], positions = [d], time_from_start = 5\<rparr>,
           \<lparr>joint_names = [''rotate_mobile_base''], positions = [theta], time_from_start = 5\<rparr>])"

text \<open>The answers of a trajectory server to a list of goals submitted one after the other.\<close>

fun answers :: "'s actuator \<Rightarrow> 's \<Rightarrow> trajectory_goal list \<Rightarrow> response list" where
  "answers act s [] = []"
| "answers act s (g # gs) = (case act s g of (r, s') \<Rightarrow> r # answers act s' gs)"

text \<open>
  The actions of one step of the spec's sequence, for a goal and the server's answer to
  it: the goal is announced and submitted; a rejection is logged as an error and no
  result is awaited; an accepted goal is awaited, and its status is logged as a warning
  unless it is \<open>STATUS_SUCCEEDED\<close>.
\<close>

definition step_events :: "trajectory_goal \<Rightarrow> response \<Rightarrow> event list" where
  "step_events g r =
     [Log Info (Sending_goal (hd (joint_names g)) (hd (positions g))), Send_goal g] @
     (case r of
        Rejected \<Rightarrow> [Log Error (Goal_rejected (hd (joint_names g)))]
      | Accepted status \<Rightarrow>
          [Get_result g,
           if status \<noteq> STATUS_SUCCEEDED
           then Log Warn (Goal_not_succeeded (hd (joint_names g)) status)
           else Log Info (Goal_succeeded (hd (joint_names g)))])"

text \<open>The entry a failed lookup leaves in \<^verbatim>\<open>missing\<close>.\<close>

fun failed_entry :: "string \<Rightarrow> lookup_result \<Rightarrow> attempt" where
  "failed_entry tag (Raised ex) = Exception_entry"
| "failed_entry tag outcome = Frame_missing tag"

text \<open>The warning a failed lookup logs: one line when an exception was caught.\<close>

definition failed_events :: "lookup_result \<Rightarrow> event list" where
  "failed_events outcome =
     (case outcome of Raised ex \<Rightarrow> [Log Warn (Lookup_error ex)] | _ \<Rightarrow> [])"

text \<open>The wall-clock time at the head of iteration \<open>i\<close> of the loop, when the loop gets there.\<close>

fun head_time :: "world \<Rightarrow> nat \<Rightarrow> real" where
  "head_time e 0 = start_clock e"
| "head_time e (Suc i) = head_time e i + lookup_time e i + spin_time e i + poll_interval"



subsection \<open>Concrete inputs\<close>

text \<open>A marker with identity rotation at \<open>(0, 3/4, 0)\<close>: exactly at the default standoff.\<close>

definition marker_at_standoff :: transform where
  "marker_at_standoff =
     \<lparr>translation = \<lparr>vx = 0, vy = 3 / 4, vz = 0\<rparr>,
      rotation = \<lparr>qx = 0, qy = 0, qz = 0, qw = 1\<rparr>\<rparr>"

text \<open>A marker with identity rotation one metre to the right of the base.\<close>

definition marker_right :: transform where
  "marker_right =
     \<lparr>translation = \<lparr>vx = 0, vy = - 1, vz = 0\<rparr>,
      rotation = \<lparr>qx = 0, qy = 0, qz = 0, qw = 1\<rparr>\<rparr>"

text \<open>A marker turned by a half-turn about the vertical axis, behind the base and
  \<open>d\<close> to its right.\<close>

definition marker_behind :: "real \<Rightarrow> transform" where
  "marker_behind d =
     \<lparr>translation = \<lparr>vx = - 1, vy = - d, vz = 0\<rparr>,
      rotation = \<lparr>qx = 0, qy = 0, qz = 1, qw = 0\<rparr>\<rparr>"


definition abort_first :: "nat actuator" where
  "abort_first n g = (Accepted (if n = 0 then STATUS_ABORTED else STATUS_SUCCEEDED), Suc n)"

text \<open>A run in which the marker is never seen and \<^verbatim>\<open>spin_once\<close> takes 59 seconds each time.\<close>

definition slow_world :: world where
  "slow_world =
     \<lparr>aruco_tag_name = ''bowl'', rclpy_ok = (\<lambda>i. True), lookup_outcome = (\<lambda>i. Unavailable),
      lookup_time = (\<lambda>i. 0), spin_time = (\<lambda>i. 59), start_clock = 0, server_ready = True\<rparr>"



text \<open>A run in which the marker is seen at the fourth lookup and \<^verbatim>\<open>spin_once\<close> takes 60
  seconds each time.\<close>

definition slow_spin_world :: world where
  "slow_spin_world =
     \<lparr>aruco_tag_name = ''bowl'', rclpy_ok = (\<lambda>i. True),
      lookup_outcome = (\<lambda>i. if i < 3 then Unavailable else Found marker_at_standoff),
      lookup_time = (\<lambda>i. 0), spin_time = (\<lambda>i. 60), start_clock = 0, server_ready = True\<rparr>"

text \<open>A run in which a lookup and \<^verbatim>\<open>spin_once\<close> take 10 milliseconds each, and the lookup
  finds no frame, then raises, then succeeds.\<close>

definition busy_world :: world where
  "busy_world =
     \<lparr>aruco_tag_name = ''bowl'', rclpy_ok = (\<lambda>i. True),
      lookup_outcome = (\<lambda>i. if i = 0 then Unavailable else if i = 1 then Raised ''stale''
                             else Found marker_at_standoff),
      lookup_time = (\<lambda>i. 1 / 100), spin_time = (\<lambda>i. 1 / 100), start_clock = 0,
      server_ready = True\<rparr>"




section \<open>The correction\<close>

subsection \<open>Auxiliary facts\<close>

lemma atan2_bounds: "- pi < atan2 y x \<and> atan2 y x \<le> pi"
proof -
  have lo: "- (pi / 2) < arctan (y / x)" and hi: "arctan (y / x) < pi / 2"
    by (rule arctan_lbound, rule arctan_ubound)
  have neg: "x < 0 \<Longrightarrow> 0 \<le> y \<Longrightarrow> arctan (y / x) \<le> 0"
    by (simp add: divide_nonneg_neg)
  have pos: "x < 0 \<Longrightarrow> y < 0 \<Longrightarrow> 0 < arctan (y / x)"
    by (simp add: divide_neg_neg)
  show ?thesis
    using lo hi neg pos pi_gt_zero unfolding atan2_def by (auto simp: not_less)
qed

lemma quaternion_matrix_unit:
  assumes "w * w + x * x + y * y + z * z = 1"
  shows "quaternion_matrix (x, y, z, w) =
    ((1 - 2 * (y * y + z * z), 2 * (x * y - w * z), 2 * (x * z + w * y), 0),
     (2 * (x * y + w * z), 1 - 2 * (x * x + z * z), 2 * (y * z - w * x), 0),
     (2 * (x * z - w * y), 2 * (y * z + w * x), 1 - 2 * (x * x + y * y), 0),
     (0, 0, 0, 1))"
  using assms by (simp add: quaternion_matrix_def Let_def float_eps_def algebra_simps)

lemma yaw_le_pi: "yaw_of q \<le> pi"
proof -
  obtain m00 m01 m02 m03 m10 m11 m12 m13 m20 m21 m22 m23 r3 where
    m: "quaternion_matrix (qx q, qy q, qz q, qw q) =
          ((m00, m01, m02, m03), (m10, m11, m12, m13), (m20, m21, m22, m23), r3)"
    by (metis prod_cases4)
  show ?thesis
    using atan2_bounds [of m10 m00] pi_ge_zero
    by (simp add: yaw_of_def euler_from_quaternion_def m Let_def)
qed

text \<open>The modelled yaw is the angle of a rotation about the vertical axis: for a turn by
  \<open>a\<close> in \<open>(- pi, pi]\<close>, whose quaternion is \<open>(0, 0, sin (a / 2), cos (a / 2))\<close>, it is \<open>a\<close>.\<close>

lemma atan2_sin_cos:
  assumes "- pi < a" and "a \<le> pi"
  shows "atan2 (sin a) (cos a) = a"
proof -
  consider (mid) "- (pi / 2) < a" "a < pi / 2" | (top) "a = pi / 2" | (bot) "a = - (pi / 2)"
    | (left) "pi / 2 < a" | (right) "a < - (pi / 2)"
    by linarith
  then show ?thesis
  proof cases
    case mid
    then have "0 < cos a" by (simp add: cos_gt_zero_pi)
    moreover have "arctan (sin a / cos a) = a"
      using arctan_tan [OF mid] by (simp add: tan_def)
    ultimately show ?thesis by (simp add: atan2_def)
  next
    case top
    show ?thesis unfolding top by (simp add: atan2_def)
  next
    case bot
    show ?thesis unfolding bot by (simp add: atan2_def)
  next
    case left
    have c: "cos a < 0"
      using left assms cos_monotone_0_pi [of "pi / 2" a] by simp
    have s: "0 \<le> sin a"
      using left assms by (intro sin_ge_zero) auto
    have "arctan (tan (a - pi)) = a - pi"
      using left assms by (intro arctan_tan) auto
    then have "arctan (sin a / cos a) = a - pi"
      by (simp add: tan_def)
    then show ?thesis using c s by (simp add: atan2_def)
  next
    case right
    have c: "cos a < 0"
      using right assms cos_monotone_0_pi [of "pi / 2" "- a"] by simp
    have s: "sin a < 0"
      using right assms sin_gt_zero [of "- a"] by simp
    have "arctan (tan (a + pi)) = a + pi"
      using right assms by (intro arctan_tan) auto
    then have "arctan (sin a / cos a) = a + pi"
      by (simp add: tan_def)
    then show ?thesis using c s by (simp add: atan2_def)
  qed
qed

lemma yaw_of_rotation_about_z:
  assumes "- pi < a" and "a \<le> pi"
  shows "yaw_of \<lparr>qx = 0, qy = 0, qz = sin (a / 2), qw = cos (a / 2)\<rparr> = a"
proof -
  have n: "cos (a / 2) * cos (a / 2) + sin (a / 2) * sin (a / 2) = 1"
    using sin_cos_squared_add3 [of "a / 2"] by (simp add: add.commute)
  have c: "1 - 2 * (sin (a / 2) * sin (a / 2)) = cos a"
    using cos_double_sin [of "a / 2"] by (simp add: power2_eq_square)
  have s: "2 * (cos (a / 2) * sin (a / 2)) = sin a"
    using sin_double [of "a / 2"] by (simp add: mult.commute)
  have one: "cos a * cos a + sin a * sin a = 1"
    using sin_cos_squared_add3 [of a] by (simp add: add.commute)
  show ?thesis
    using atan2_sin_cos [OF assms]
    by (simp add: yaw_of_def euler_from_quaternion_def quaternion_matrix_unit n c s one float_eps_def)
qed

text \<open>The method with its local variables inlined.\<close>

lemma compute_difference_parts:
  "compute_difference t offset =
     (let Pb = set_homogeneous
                 (vec_add
                    (matmul (quaternion_matrix (qx (rotation t), qy (rotation t),
                                                qz (rotation t), qw (rotation t)))
                            (0, - offset, 0, 1))
                    (vx (translation t), vy (translation t), 0, 1));
          phi = atan2 (row1 Pb) (row0 Pb)
      in (phi, sqrt ((row0 Pb)\<^sup>2 + (row1 Pb)\<^sup>2), - phi + yaw_of (rotation t) + pi))"
  by (simp add: compute_difference_def yaw_of_def Let_def)

lemma compute_difference_standoff:
  "compute_difference \<lparr>translation = \<lparr>vx = 0, vy = offset, vz = 0\<rparr>,
                        rotation = \<lparr>qx = 0, qy = 0, qz = 0, qw = 1\<rparr>\<rparr> offset = (0, 0, pi)"
  by (simp add: compute_difference_def quaternion_matrix_def euler_from_quaternion_def
      Let_def float_eps_def atan2_def)

lemma compute_difference_right:
  "compute_difference marker_right 0 = (- (pi / 2), 1, 3 * pi / 2)"
  by (simp add: marker_right_def compute_difference_def quaternion_matrix_def
      euler_from_quaternion_def Let_def float_eps_def atan2_def)

lemma compute_difference_behind:
  assumes "0 < d"
  shows "compute_difference (marker_behind d) 0
           = (arctan d - pi, sqrt (1 + d\<^sup>2), 3 * pi - arctan d)"
  using assms
  by (simp add: marker_behind_def compute_difference_def quaternion_matrix_def
      euler_from_quaternion_def Let_def float_eps_def atan2_def)

lemma theta_less: "snd (snd (compute_difference t offset)) < 3 * pi"
proof -
  have "snd (snd (compute_difference t offset))
          = - fst (compute_difference t offset) + yaw_of (rotation t) + pi"
    by (simp add: compute_difference_parts Let_def)
  moreover have "- pi < fst (compute_difference t offset)"
    using atan2_bounds by (simp add: compute_difference_parts Let_def)
  ultimately show ?thesis
    using yaw_le_pi [of "rotation t"] by linarith
qed

subsection \<open>Heading and distance\<close>

text \<open>
  Claim C1. For a transform with translation \<open>(tx, ty, tz)\<close> and a unit quaternion, and
  for every offset, the first two components of the result of \<open>compute_difference\<close>
  are \<open>phi = atan2 P_base.y P_base.x\<close> and \<open>dist = sqrt (P_base.x\<^sup>2 + P_base.y\<^sup>2)\<close>, where
  \<open>R\<close> is the rotation matrix of the quaternion, \<open>X = R \<cdot> (0, - offset, 0, 1)\<close>,
  \<open>P = (tx, ty, 0, 1)\<close> and \<open>P_base = X + P\<close> with its last coordinate set to 1. The
  target point is given in closed form as well, and the whole result does not change
  when \<open>tz\<close> does: the translation enters through \<open>tx\<close> and \<open>ty\<close> only.
\<close>

theorem compute_difference_heading_distance:
  assumes "unit_quaternion (rotation t)"
  shows "(let x = qx (rotation t); y = qy (rotation t); z = qz (rotation t); w = qw (rotation t);
              tx = vx (translation t); ty = vy (translation t);
              R = quaternion_matrix (x, y, z, w);
              X = matmul R (0, - offset, 0, 1);
              P = (tx, ty, 0, 1);
              P_base = set_homogeneous (vec_add X P)
          in fst (compute_difference t offset) = atan2 (row1 P_base) (row0 P_base)
           \<and> fst (snd (compute_difference t offset)) = sqrt ((row0 P_base)\<^sup>2 + (row1 P_base)\<^sup>2)
           \<and> P_base = (tx - offset * (2 * (x * y - w * z)),
                       ty - offset * (1 - 2 * (x * x + z * z)),
                       - offset * (2 * (y * z + w * x)), 1))
       \<and> compute_difference (t\<lparr>translation := (translation t)\<lparr>vz := tz'\<rparr>\<rparr>) offset
           = compute_difference t offset"
proof -
  have u: "qw (rotation t) * qw (rotation t) + qx (rotation t) * qx (rotation t)
         + qy (rotation t) * qy (rotation t) + qz (rotation t) * qz (rotation t) = 1"
    using assms by (simp add: unit_quaternion_def)
  show ?thesis
    by (simp add: compute_difference_parts Let_def quaternion_matrix_unit [OF u])
qed

theorem compute_difference_heading_distance_witness:
  "unit_quaternion (rotation marker_right)
   \<and> fst (compute_difference marker_right (3 / 4)) = atan2 (- (7 / 4)) 0
   \<and> fst (snd (compute_difference marker_right (3 / 4))) = sqrt (0\<^sup>2 + (- (7 / 4))\<^sup>2)
   \<and> compute_difference (marker_right\<lparr>translation := (translation marker_right)\<lparr>vz := 2\<rparr>\<rparr>) (3 / 4)
       = compute_difference marker_right (3 / 4)"
proof -
  have h: "unit_quaternion (rotation marker_right)"
    by (simp add: unit_quaternion_def marker_right_def)
  have q: "quaternion_matrix (0, 0, 0, 1)
             = ((1, 0, 0, 0), (0, 1, 0, 0), (0, 0, 1, 0), (0, 0, 0, 1))"
    by (simp add: quaternion_matrix_def Let_def float_eps_def)
  have r: "rotation marker_right = \<lparr>qx = 0, qy = 0, qz = 0, qw = 1\<rparr>"
          "translation marker_right = \<lparr>vx = 0, vy = - 1, vz = 0\<rparr>"
    by (simp_all add: marker_right_def)
  show ?thesis
    using h compute_difference_heading_distance [OF h, of "3 / 4" 2]
    by (simp add: Let_def r q)
qed

subsection \<open>The final rotation\<close>

text \<open>
  Claim C2. For every transform and offset, the triple \<open>(phi, dist, theta)\<close> that
  \<open>compute_difference\<close> returns satisfies \<open>theta = - phi + yaw + pi\<close>, where \<open>yaw\<close> is the
  yaw of the transform's quaternion under the roll-pitch-yaw decomposition; so
  \<open>phi + theta = yaw + pi\<close>: turning by \<open>phi\<close> and then by \<open>theta\<close> ends at the marker's yaw
  plus a half-turn.
\<close>

theorem compute_difference_theta:
  "(case compute_difference t offset of
      (phi, d, theta) \<Rightarrow>
        theta = - phi + yaw_of (rotation t) + pi \<and> phi + theta = yaw_of (rotation t) + pi)"
  by (simp add: compute_difference_parts Let_def)

subsection \<open>Ranges\<close>

text \<open>In exact arithmetic the ranges are those of \<open>atan2\<close> and \<open>sqrt\<close>, for every input.\<close>

lemma compute_difference_range_real:
  "(case compute_difference t offset of
      (phi, d, theta) \<Rightarrow> - pi < phi \<and> phi \<le> pi \<and> 0 \<le> d)"
  using atan2_bounds by (simp add: compute_difference_parts Let_def)

text \<open>Facts on the operations on doubles.\<close>

lemma threshold_ge: "2 ^ 1023 \<le> overflow_threshold"
  by (simp add: overflow_threshold_def)

lemma round_overflow_Fin: "\<bar>r\<bar> < 2 ^ 1023 \<Longrightarrow> round_overflow r = Fin r"
  using threshold_ge by (auto simp: round_overflow_def)

lemma round_overflow_0 [simp]: "round_overflow 0 = Fin 0"
  by (simp add: round_overflow_Fin)

lemma round_overflow_cases:
  "round_overflow r = Fin r \<or> round_overflow r = PInf \<and> 0 < r \<or> round_overflow r = NInf \<and> r < 0"
  using threshold_ge by (auto simp: round_overflow_def intro: less_le_trans [of 0 "2 ^ 1023"])



lemma round_overflow_not_NaN [simp]: "round_overflow r \<noteq> NaN"
  by (simp add: round_overflow_def)

lemma fadd_zero_round [simp]:
  "fadd (Fin 0) (round_overflow r) = round_overflow r"
  "fadd (round_overflow r) (Fin 0) = round_overflow r"
  by (auto simp: round_overflow_def)





















subsection \<open>The marker at the standoff point\<close>

text \<open>
  Claim C9. When the marker has translation exactly \<open>(0, offset, 0)\<close> and identity
  rotation, \<open>compute_difference\<close> returns \<open>dist = 0\<close> and \<open>phi = 0\<close>, the value of
  \<open>atan2 0 0\<close>; the final rotation then is a half-turn.
\<close>

theorem compute_difference_at_standoff:
  "compute_difference \<lparr>translation = \<lparr>vx = 0, vy = offset, vz = 0\<rparr>,
                        rotation = \<lparr>qx = 0, qy = 0, qz = 0, qw = 1\<rparr>\<rparr> offset = (0, 0, pi)
   \<and> atan2 0 0 = 0"
  by (simp add: compute_difference_standoff) (simp add: atan2_def)

subsection \<open>The final rotation is not normalised\<close>

text \<open>
  Claim C10. The final rotation \<open>theta = - phi + yaw + pi\<close> is not brought back into
  \<open>(- pi, pi]\<close>: for some unit quaternion and offset its magnitude exceeds \<open>pi\<close>, and it
  comes as close to \<open>3 * pi\<close> as one likes without reaching it. So the third motion
  command can ask for more than a half-revolution.
\<close>

theorem theta_not_normalized:
  "(\<exists>t offset. unit_quaternion (rotation t) \<and> 0 \<le> offset
       \<and> pi < \<bar>snd (snd (compute_difference t offset))\<bar>)
   \<and> (\<forall>e>0. \<exists>t offset. unit_quaternion (rotation t) \<and> 0 \<le> offset
       \<and> 3 * pi - e < snd (snd (compute_difference t offset)))
   \<and> (\<forall>t offset. snd (snd (compute_difference t offset)) < 3 * pi)"
proof (intro conjI allI impI)
  have "unit_quaternion (rotation marker_right)"
    by (simp add: unit_quaternion_def marker_right_def)
  moreover have "pi < \<bar>snd (snd (compute_difference marker_right 0))\<bar>"
    using pi_gt_zero by (simp add: compute_difference_right)
  ultimately show "\<exists>t offset. unit_quaternion (rotation t) \<and> 0 \<le> offset
      \<and> pi < \<bar>snd (snd (compute_difference t offset))\<bar>"
    by (intro exI [of _ marker_right] exI [of _ 0]) simp
next
  fix e :: real
  assume e: "0 < e"
  define a where "a = min e 1 / 2"
  have a: "0 < a" "a < e" "a < pi / 2"
    using e pi_ge_two by (auto simp: a_def min_def)
  define d where "d = tan a"
  have d: "0 < d"
    unfolding d_def using a by (intro tan_gt_zero) auto
  have ad: "arctan d = a"
    unfolding d_def using a by (intro arctan_tan) auto
  have "unit_quaternion (rotation (marker_behind d))"
    by (simp add: unit_quaternion_def marker_behind_def)
  moreover have "3 * pi - e < snd (snd (compute_difference (marker_behind d) 0))"
    using a by (simp add: compute_difference_behind [OF d] ad)
  ultimately show "\<exists>t offset. unit_quaternion (rotation t) \<and> 0 \<le> offset
      \<and> 3 * pi - e < snd (snd (compute_difference t offset))"
    by (intro exI [of _ "marker_behind d"] exI [of _ 0]) simp
next
  fix t offset
  show "snd (snd (compute_difference t offset)) < 3 * pi"
    by (rule theta_less)
qed

theorem theta_not_normalized_witness:
  "(0::real) < 1
   \<and> (\<exists>t offset. unit_quaternion (rotation t) \<and> 0 \<le> offset
         \<and> 3 * pi - 1 < snd (snd (compute_difference t offset)))
   \<and> snd (snd (compute_difference marker_right 0)) < 3 * pi"
proof -
  have h: "(0::real) < 1" by simp
  from theta_not_normalized
  have approach: "\<forall>e>0. \<exists>t offset. unit_quaternion (rotation t) \<and> 0 \<le> offset
       \<and> 3 * pi - e < snd (snd (compute_difference t offset))"
    and bound: "\<forall>t offset. snd (snd (compute_difference t offset)) < 3 * pi"
    by blast+
  from approach h have "\<exists>t offset. unit_quaternion (rotation t) \<and> 0 \<le> offset
       \<and> 3 * pi - 1 < snd (snd (compute_difference t offset))"
    by blast
  with h bound show ?thesis by blast
qed

section \<open>The motion sequence\<close>

subsection \<open>Auxiliary facts\<close>

lemma submitted_append: "submitted (xs @ ys) = submitted xs @ submitted ys"
  by (induction xs rule: submitted.induct) simp_all

lemma send_base_goal_blocking_events:
  "send_base_goal_blocking act (s, tr) j inc =
     (let g = \<lparr>joint_names = [j], positions = [inc], time_from_start = 5\<rparr>
      in (snd (act s g), tr @ step_events g (fst (act s g))))"
  by (cases "act s \<lparr>joint_names = [j], positions = [inc], time_from_start = 5\<rparr>")
     (simp add: send_base_goal_blocking_def step_events_def Let_def split: response.splits)

lemma submitted_step_events: "submitted (step_events g r) = [g]"
  by (cases r) (simp_all add: step_events_def)

lemma align_to_marker_events:
  assumes "planned_goals t offset = [g1, g2, g3]"
    and "act s g1 = (r1, s1)" and "act s1 g2 = (r2, s2)" and "act s2 g3 = (r3, s3)"
  shows "align_to_marker act (s, tr) t offset
           = (s3, tr @ step_events g1 r1 @ step_events g2 r2 @ step_events g3 r3)"
  using assms
  by (cases "compute_difference t offset")
     (simp add: align_to_marker_def planned_goals_def send_base_goal_blocking_events Let_def)

lemma planned_goals_length: "length (planned_goals t offset) = 3"
  by (cases "compute_difference t offset") (simp add: planned_goals_def)

lemma planned_goals_three: "\<exists>g1 g2 g3. planned_goals t offset = [g1, g2, g3]"
  by (cases "compute_difference t offset") (simp add: planned_goals_def)

lemma align_to_marker_submitted:
  "submitted (snd (align_to_marker act (s, tr) t offset)) = submitted tr @ planned_goals t offset"
proof -
  obtain g1 g2 g3 where g: "planned_goals t offset = [g1, g2, g3]"
    using planned_goals_three by blast
  obtain r1 s1 where a1: "act s g1 = (r1, s1)" by (cases "act s g1")
  obtain r2 s2 where a2: "act s1 g2 = (r2, s2)" by (cases "act s1 g2")
  obtain r3 s3 where a3: "act s2 g3 = (r3, s3)" by (cases "act s2 g3")
  show ?thesis
    by (simp add: align_to_marker_events [OF g a1 a2 a3] g submitted_append submitted_step_events)
qed


lemma step_events_not_succeeded:
  "status \<noteq> STATUS_SUCCEEDED \<Longrightarrow> step_events g (Accepted status) =
     [Log Info (Sending_goal (hd (joint_names g)) (hd (positions g)))] @
     [Send_goal g, Get_result g, Log Warn (Goal_not_succeeded (hd (joint_names g)) status)] @ []"
  by (simp add: step_events_def)

lemma sequence_around_step:
  assumes k: "k < 3"
    and ev: "step_events (planned_goals t offset ! k) (answers act s (planned_goals t offset) ! k) = [i] @ mid @ []"
    and mid: "submitted mid = [planned_goals t offset ! k]"
  shows "\<exists>before after.
           snd (align_to_marker act (s, []) t offset) = before @ mid @ after
         \<and> submitted before = take k (planned_goals t offset)
         \<and> submitted after = drop (Suc k) (planned_goals t offset)"
proof -
  obtain g1 g2 g3 where g: "planned_goals t offset = [g1, g2, g3]"
    using planned_goals_three by blast
  obtain r1 s1 where a1: "act s g1 = (r1, s1)" by (cases "act s g1")
  obtain r2 s2 where a2: "act s1 g2 = (r2, s2)" by (cases "act s1 g2")
  obtain r3 s3 where a3: "act s2 g3 = (r3, s3)" by (cases "act s2 g3")
  have ans: "answers act s (planned_goals t offset) = [r1, r2, r3]"
    by (simp add: g a1 a2 a3)
  have run: "snd (align_to_marker act (s, []) t offset)
               = step_events g1 r1 @ step_events g2 r2 @ step_events g3 r3"
    by (simp add: align_to_marker_events [OF g a1 a2 a3])
  have si: "submitted [i] = []"
    using ev mid submitted_step_events [of "planned_goals t offset ! k" "answers act s (planned_goals t offset) ! k"]
    by (cases i) simp_all
  consider "k = 0" | "k = 1" | "k = 2" using k by linarith
  then show ?thesis
  proof cases
    case 1
    then have e: "step_events g1 r1 = [i] @ mid" using ev by (simp add: g a1 a2 a3)
    show ?thesis
      apply (rule exI [of _ "[i]"], rule exI [of _ "step_events g2 r2 @ step_events g3 r3"])
      using si by (simp add: run e 1 g submitted_append submitted_step_events)
  next
    case 2
    then have e: "step_events g2 r2 = [i] @ mid" using ev by (simp add: g a1 a2 a3)
    show ?thesis
      apply (rule exI [of _ "step_events g1 r1 @ [i]"], rule exI [of _ "step_events g3 r3"])
      using si by (simp add: run e 2 g submitted_append submitted_step_events)
  next
    case 3
    then have e: "step_events g3 r3 = [i] @ mid" using ev by (simp add: g a1 a2 a3)
    show ?thesis
      apply (rule exI [of _ "step_events g1 r1 @ step_events g2 r2 @ [i]"], rule exI [of _ "[]"])
      using si by (simp add: run e 3 g submitted_append submitted_step_events)
  qed
qed

lemma planned_standoff:
  "planned_goals marker_at_standoff (3 / 4) =
     [\<lparr>joint_names = [''rotate_mobile_base''], positions = [0], time_from_start = 5\<rparr>,
      \<lparr>joint_names = [''translate_mobile_base''], positions = [0], time_from_start = 5\<rparr>,
      \<lparr>joint_names = [''rotate_mobile_base''], positions = [pi], time_from_start = 5\<rparr>]"
  by (simp add: planned_goals_def marker_at_standoff_def compute_difference_standoff)


subsection \<open>A rejected goal\<close>




subsection \<open>An accepted goal that does not succeed\<close>

text \<open>
  Claim C4. When the goal of step \<open>k\<close> (0, 1 or 2; the first in the spec's example) is
  accepted and its terminal status is not \<open>STATUS_SUCCEEDED\<close>, a warning with the joint
  and the status is logged after the result, and the sequence goes on: the goals after
  step \<open>k\<close> are submitted after the warning, and every goal is submitted once, so the
  failed step is not tried again.
\<close>

theorem not_succeeded_goal_sequence_continues:
  assumes "k < 3" and "answers act s (planned_goals t offset) ! k = Accepted status"
    and "status \<noteq> STATUS_SUCCEEDED"
  shows "\<exists>before after.
           snd (align_to_marker act (s, []) t offset)
             = before
               @ [Send_goal (planned_goals t offset ! k),
                  Get_result (planned_goals t offset ! k),
                  Log Warn (Goal_not_succeeded
                    (hd (joint_names (planned_goals t offset ! k))) status)]
               @ after
         \<and> submitted before = take k (planned_goals t offset)
         \<and> submitted after = drop (Suc k) (planned_goals t offset)"
  using sequence_around_step [OF assms(1), where act = act and s = s and t = t and offset = offset]
    step_events_not_succeeded [OF assms(3), of "planned_goals t offset ! k"] assms(2)
  by simp

theorem not_succeeded_goal_sequence_continues_witness:
  "(0::nat) < 3
   \<and> answers abort_first 0 (planned_goals marker_at_standoff (3 / 4)) ! 0
       = Accepted STATUS_ABORTED
   \<and> STATUS_ABORTED \<noteq> STATUS_SUCCEEDED
   \<and> (\<exists>before after.
         snd (align_to_marker abort_first (0, []) marker_at_standoff (3 / 4))
           = before
             @ [Send_goal (planned_goals marker_at_standoff (3 / 4) ! 0),
                Get_result (planned_goals marker_at_standoff (3 / 4) ! 0),
                Log Warn (Goal_not_succeeded
                  (hd (joint_names (planned_goals marker_at_standoff (3 / 4) ! 0)))
                  STATUS_ABORTED)]
             @ after
       \<and> submitted before = take 0 (planned_goals marker_at_standoff (3 / 4))
       \<and> submitted after = drop (Suc 0) (planned_goals marker_at_standoff (3 / 4)))"
proof -
  have h1: "(0::nat) < 3" by simp
  have h2: "answers abort_first 0 (planned_goals marker_at_standoff (3 / 4)) ! 0
              = Accepted STATUS_ABORTED"
    by (simp add: planned_standoff abort_first_def)
  have h3: "STATUS_ABORTED \<noteq> STATUS_SUCCEEDED" by simp
  show ?thesis
    using h1 h2 h3 not_succeeded_goal_sequence_continues [OF h1 h2 h3] by blast
qed

section \<open>The acquisition loop\<close>

subsection \<open>Auxiliary facts\<close>

lemma try_lookup_found:
  "lookup_outcome e i = Found t \<Longrightarrow>
   try_lookup e i missing tr =
     (Some t, missing, tr @ [Print_lookup (aruco_tag_name e), Log Info Found_tag, Log Warn Robot_will_move])"
  by (simp add: try_lookup_def)

lemma try_lookup_failed:
  "\<forall>t. lookup_outcome e i \<noteq> Found t \<Longrightarrow>
   try_lookup e i missing tr =
     (None, missing @ [failed_entry (aruco_tag_name e) (lookup_outcome e i)],
      tr @ Print_lookup (aruco_tag_name e) # failed_events (lookup_outcome e i))"
  by (cases "lookup_outcome e i") (simp_all add: try_lookup_def failed_events_def)

lemma try_lookup_cases:
  obtains t where "lookup_outcome e i = Found t"
  | "\<forall>t. lookup_outcome e i \<noteq> Found t"
  by (cases "lookup_outcome e i") auto

lemma acquire_stop:
  "\<not> rclpy_ok e i \<Longrightarrow> acquire e i now missing tr = Some (None, now, missing, tr)"
  by (subst acquire.simps) simp

lemma acquire_found:
  "rclpy_ok e i \<Longrightarrow> lookup_outcome e i = Found t \<Longrightarrow>
   acquire e i now missing tr =
     Some (Some t, now + lookup_time e i, missing,
           tr @ [Print_lookup (aruco_tag_name e), Log Info Found_tag, Log Warn Robot_will_move])"
  by (subst acquire.simps) (simp add: try_lookup_found)

lemma acquire_timeout:
  "rclpy_ok e i \<Longrightarrow> \<forall>t. lookup_outcome e i \<noteq> Found t \<Longrightarrow>
   timeout_sec < now + lookup_time e i - start_clock e \<Longrightarrow>
   acquire e i now missing tr =
     Some (None, now + lookup_time e i,
           missing @ [failed_entry (aruco_tag_name e) (lookup_outcome e i)],
           tr @ Print_lookup (aruco_tag_name e) # failed_events (lookup_outcome e i)
              @ [Log Error Could_not_detect])"
  by (subst acquire.simps) (simp add: try_lookup_failed Let_def)

lemma acquire_retry:
  "rclpy_ok e i \<Longrightarrow> \<forall>t. lookup_outcome e i \<noteq> Found t \<Longrightarrow>
   \<not> timeout_sec < now + lookup_time e i - start_clock e \<Longrightarrow>
   acquire e i now missing tr =
     acquire e (Suc i) (now + lookup_time e i + spin_time e i + poll_interval)
       (missing @ [failed_entry (aruco_tag_name e) (lookup_outcome e i)])
       (tr @ Print_lookup (aruco_tag_name e) # failed_events (lookup_outcome e i)
           @ [Log Error Could_not_detect, Spin_once, Sleep poll_interval])"
  by (subst acquire.simps) (simp add: try_lookup_failed Let_def)

lemma acquire_terminates_aux:
  assumes lt: "\<forall>j. 0 \<le> lookup_time e j" and st: "\<forall>j. 0 \<le> spin_time e j"
  shows "timeout_sec + poll_interval - (now - start_clock e) \<le> real n \<Longrightarrow>
         \<exists>r. acquire e i now missing tr = Some r"
proof (induction n arbitrary: i now missing tr)
  case 0
  show ?case
  proof (cases "rclpy_ok e i")
    case False then show ?thesis by (simp add: acquire_stop)
  next
    case ok: True
    show ?thesis
    proof (cases rule: try_lookup_cases [of e i])
      case (1 t) then show ?thesis using ok by (simp add: acquire_found)
    next
      case 2
      have "timeout_sec < now + lookup_time e i - start_clock e"
        using 0 lt [rule_format, of i] by (simp add: poll_interval_def)
      then show ?thesis using ok 2 by (simp add: acquire_timeout)
    qed
  qed
next
  case (Suc n)
  show ?case
  proof (cases "rclpy_ok e i")
    case False then show ?thesis by (simp add: acquire_stop)
  next
    case ok: True
    show ?thesis
    proof (cases rule: try_lookup_cases [of e i])
      case (1 t) then show ?thesis using ok by (simp add: acquire_found)
    next
      case 2
      show ?thesis
      proof (cases "timeout_sec < now + lookup_time e i - start_clock e")
        case True then show ?thesis using ok 2 by (simp add: acquire_timeout)
      next
        case False
        have "timeout_sec + poll_interval
                - (now + lookup_time e i + spin_time e i + poll_interval - start_clock e) \<le> real n"
          using Suc.prems lt [rule_format, of i] st [rule_format, of i]
          by (simp add: poll_interval_def)
        from Suc.IH [OF this] show ?thesis
          using ok 2 False by (simp add: acquire_retry)
      qed
    qed
  qed
qed

lemma acquire_terminates:
  assumes lt: "\<forall>j. 0 \<le> lookup_time e j" and st: "\<forall>j. 0 \<le> spin_time e j"
  shows "\<exists>r. acquire e i now missing tr = Some r"
proof -
  obtain n :: nat where "timeout_sec + poll_interval - (now - start_clock e) \<le> real n"
    using real_arch_simple by blast
  then show ?thesis by (rule acquire_terminates_aux [OF lt st])
qed


lemma acquire_exit_aux:
  assumes lt: "\<forall>j. 0 \<le> lookup_time e j \<and> lookup_time e j \<le> a"
    and st: "\<forall>j. 0 \<le> spin_time e j \<and> spin_time e j \<le> b"
  shows "timeout_sec + poll_interval - (now - start_clock e) \<le> real n \<Longrightarrow>
         now - start_clock e \<le> timeout_sec + poll_interval + b \<Longrightarrow>
         \<exists>tb now' missing' tr'. acquire e i now missing tr = Some (tb, now', missing', tr')
            \<and> now' - start_clock e \<le> timeout_sec + poll_interval + a + b"
proof (induction n arbitrary: i now missing tr)
  case 0
  have a: "0 \<le> a" using lt [rule_format, of 0] by linarith
  show ?case
  proof (cases "rclpy_ok e i")
    case False then show ?thesis using 0 a by (simp add: acquire_stop)
  next
    case ok: True
    show ?thesis
    proof (cases rule: try_lookup_cases [of e i])
      case (1 t) then show ?thesis using ok 0 lt [rule_format, of i] by (simp add: acquire_found)
    next
      case 2
      have "timeout_sec < now + lookup_time e i - start_clock e"
        using 0 lt [rule_format, of i] by (simp add: poll_interval_def)
      then show ?thesis using ok 2 0 lt [rule_format, of i] by (simp add: acquire_timeout)
    qed
  qed
next
  case (Suc n)
  have a: "0 \<le> a" using lt [rule_format, of 0] by linarith
  show ?case
  proof (cases "rclpy_ok e i")
    case False then show ?thesis using Suc.prems a by (simp add: acquire_stop)
  next
    case ok: True
    show ?thesis
    proof (cases rule: try_lookup_cases [of e i])
      case (1 t) then show ?thesis using ok Suc.prems lt [rule_format, of i] by (simp add: acquire_found)
    next
      case 2
      show ?thesis
      proof (cases "timeout_sec < now + lookup_time e i - start_clock e")
        case True then show ?thesis using ok 2 Suc.prems lt [rule_format, of i] by (simp add: acquire_timeout)
      next
        case False
        have 1: "timeout_sec + poll_interval
                - (now + lookup_time e i + spin_time e i + poll_interval - start_clock e) \<le> real n"
          using Suc.prems lt [rule_format, of i] st [rule_format, of i]
          by (simp add: poll_interval_def)
        have 2: "now + lookup_time e i + spin_time e i + poll_interval - start_clock e
                   \<le> timeout_sec + poll_interval + b"
          using False st [rule_format, of i] by simp
        from Suc.IH [OF 1 2] show ?thesis
          using ok \<open>\<forall>t. lookup_outcome e i \<noteq> Found t\<close> False by (simp add: acquire_retry)
      qed
    qed
  qed
qed

lemma acquire_retries:
  assumes ok: "\<forall>j<N. rclpy_ok e j"
    and fail: "\<forall>j<N. \<forall>t. lookup_outcome e j \<noteq> Found t"
    and within: "\<forall>j<N. \<not> timeout_sec < head_time e j + lookup_time e j - start_clock e"
  shows "i \<le> N \<Longrightarrow>
         \<exists>tr'. acquire e i (head_time e i) missing tr =
           acquire e N (head_time e N)
             (missing @ map (\<lambda>j. failed_entry (aruco_tag_name e) (lookup_outcome e j)) [i..<N]) tr'"
proof (induction "N - i" arbitrary: i missing tr)
  case 0
  then have "i = N" by simp
  then show ?case by auto
next
  case (Suc d)
  then have i: "i < N" and d: "d = N - Suc i" by simp_all
  have step: "acquire e i (head_time e i) missing tr =
     acquire e (Suc i) (head_time e (Suc i))
       (missing @ [failed_entry (aruco_tag_name e) (lookup_outcome e i)])
       (tr @ Print_lookup (aruco_tag_name e) # failed_events (lookup_outcome e i)
           @ [Log Error Could_not_detect, Spin_once, Sleep poll_interval])"
    using ok fail within i by (simp add: acquire_retry)
  from Suc.hyps(1) [OF d, of "missing @ [failed_entry (aruco_tag_name e) (lookup_outcome e i)]"] i
  show ?case
    by (simp add: step upt_conv_Cons)
qed

lemma acquire_slow_world:
  "acquire slow_world 0 (start_clock slow_world) [] [Log Info Waiting_for_transforms] =
     Some (None, 180,
       [Frame_missing ''bowl'', Frame_missing ''bowl'', Frame_missing ''bowl'', Frame_missing ''bowl''],
       [Log Info Waiting_for_transforms,
        Print_lookup ''bowl'', Log Error Could_not_detect, Spin_once, Sleep 1,
        Print_lookup ''bowl'', Log Error Could_not_detect, Spin_once, Sleep 1,
        Print_lookup ''bowl'', Log Error Could_not_detect, Spin_once, Sleep 1,
        Print_lookup ''bowl'', Log Error Could_not_detect])"
  by (simp add: acquire.simps try_lookup_def slow_world_def timeout_sec_def poll_interval_def)

lemma head_time_le:
  assumes lt: "\<forall>j<N. 0 \<le> lookup_time e j" and st: "\<forall>j<N. 0 \<le> spin_time e j"
    and d: "\<forall>j<N. lookup_time e j + spin_time e j + poll_interval \<le> d"
  shows "k \<le> N \<Longrightarrow> head_time e k - start_clock e \<le> real k * d"
proof (induction k)
  case 0
  then show ?case by simp
next
  case (Suc k)
  then have "head_time e k - start_clock e \<le> real k * d" and "k < N" by simp_all
  with d show ?case by (auto simp: algebra_simps)
qed



subsection \<open>No motion after a timeout\<close>




subsection \<open>Failures, then a success\<close>

text \<open>
  Claim C6, as the spec states it: for every \<open>N\<close> with \<open>N * poll_interval < timeout\<close>, when
  the lookup fails \<open>N\<close> times and then succeeds, the loop ends on that first success with
  the transform found. The sleep is not all the time an iteration takes. In the run below
  \<open>N = 3\<close> and \<^verbatim>\<open>spin_once\<close> takes 60 seconds: the third failed lookup is made at 122 seconds,
  the timeout test fires and the loop is left without a transform, before the lookup
  that would succeed.
\<close>

theorem failures_then_success_times_out:
  "real 3 * poll_interval < timeout_sec
   \<and> rclpy_ok slow_spin_world 0 \<and> rclpy_ok slow_spin_world 1 \<and> rclpy_ok slow_spin_world 2
   \<and> rclpy_ok slow_spin_world 3
   \<and> lookup_outcome slow_spin_world 0 = Unavailable
   \<and> lookup_outcome slow_spin_world 1 = Unavailable
   \<and> lookup_outcome slow_spin_world 2 = Unavailable
   \<and> lookup_outcome slow_spin_world 3 = Found marker_at_standoff
   \<and> acquire slow_spin_world 0 (start_clock slow_spin_world) [] [] =
       Some (None, 122,
         [Frame_missing ''bowl'', Frame_missing ''bowl'', Frame_missing ''bowl''],
         [Print_lookup ''bowl'', Log Error Could_not_detect, Spin_once, Sleep 1,
          Print_lookup ''bowl'', Log Error Could_not_detect, Spin_once, Sleep 1,
          Print_lookup ''bowl'', Log Error Could_not_detect])"
  by (simp add: acquire.simps try_lookup_def slow_spin_world_def timeout_sec_def poll_interval_def)

text \<open>
  Claim C6, amended. Let \<open>d\<close> bound the wall-clock time of one iteration (the lookup,
  \<^verbatim>\<open>spin_once\<close> and the sleep of \<open>poll_interval\<close>), and let \<open>N * d \<le> timeout\<close>. While \<^verbatim>\<open>rclpy.ok()\<close>
  holds, when the lookup fails \<open>N\<close> times, by \<^verbatim>\<open>can_transform\<close> being false or by a transform
  exception, and then succeeds, the loop returns at that first success with the
  transform found, and \<^verbatim>\<open>missing\<close> has exactly \<open>N\<close> entries, one for each failure in order:
  the frame pair for a frame not yet available, the word \<^verbatim>\<open>exception\<close> for an exception.
  An exception never ends the loop.
\<close>

theorem acquire_after_failures_within:
  assumes ok: "\<forall>j\<le>N. rclpy_ok e j"
    and fail: "\<forall>j<N. \<forall>t. lookup_outcome e j \<noteq> Found t"
    and found: "lookup_outcome e N = Found t"
    and lt: "\<forall>j<N. 0 \<le> lookup_time e j" and st: "\<forall>j<N. 0 \<le> spin_time e j"
    and d: "\<forall>j<N. lookup_time e j + spin_time e j + poll_interval \<le> d"
    and N: "real N * d \<le> timeout_sec"
  shows "\<exists>missing tr'.
           acquire e 0 (start_clock e) [] tr
             = Some (Some t, head_time e N + lookup_time e N, missing, tr')
         \<and> length missing = N
         \<and> missing = map (\<lambda>j. failed_entry (aruco_tag_name e) (lookup_outcome e j)) [0..<N]"
proof -
  have within: "\<forall>j<N. \<not> timeout_sec < head_time e j + lookup_time e j - start_clock e"
  proof (intro allI impI)
    fix j assume j: "j < N"
    have h: "head_time e j - start_clock e \<le> real j * d"
      using head_time_le [OF lt st d, of j] j by simp
    have l: "lookup_time e j \<le> d"
      using d [rule_format, OF j] st [rule_format, OF j] by (simp add: poll_interval_def)
    have d0: "0 \<le> d"
      using d [rule_format, OF j] st [rule_format, OF j] lt [rule_format, OF j]
      by (simp add: poll_interval_def)
    have "real (Suc j) * d \<le> real N * d"
      using j d0 by (intro mult_right_mono) auto
    with h l N show "\<not> timeout_sec < head_time e j + lookup_time e j - start_clock e"
      by (simp add: algebra_simps)
  qed
  have ok': "\<forall>j<N. rclpy_ok e j" using ok by simp
  from acquire_retries [OF ok' fail within, of 0 "[]" tr]
  obtain tr' where "acquire e 0 (head_time e 0) [] tr =
      acquire e N (head_time e N)
        (map (\<lambda>j. failed_entry (aruco_tag_name e) (lookup_outcome e j)) [0..<N]) tr'"
    by auto
  moreover have "rclpy_ok e N" using ok by simp
  ultimately show ?thesis
    using found by (simp add: acquire_found)
qed

theorem acquire_after_failures_within_witness:
  "rclpy_ok busy_world 0 \<and> rclpy_ok busy_world 1 \<and> rclpy_ok busy_world 2
   \<and> lookup_outcome busy_world 0 = Unavailable
   \<and> lookup_outcome busy_world 1 = Raised ''stale''
   \<and> lookup_outcome busy_world 2 = Found marker_at_standoff
   \<and> (\<forall>j. 0 \<le> lookup_time busy_world j \<and> 0 \<le> spin_time busy_world j
          \<and> lookup_time busy_world j + spin_time busy_world j + poll_interval \<le> 51 / 50)
   \<and> real 2 * (51 / 50) \<le> timeout_sec
   \<and> (\<exists>tr'. acquire busy_world 0 (start_clock busy_world) [] []
             = Some (Some marker_at_standoff, 41 / 20,
                     [Frame_missing ''bowl'', Exception_entry], tr'))"
proof -
  have ok: "\<forall>j\<le>2. rclpy_ok busy_world j" by (simp add: busy_world_def)
  have fail: "\<forall>j<2. \<forall>t. lookup_outcome busy_world j \<noteq> Found t"
    by (auto simp: busy_world_def)
  have found: "lookup_outcome busy_world 2 = Found marker_at_standoff"
    by (simp add: busy_world_def)
  have lt: "\<forall>j<2. 0 \<le> lookup_time busy_world j" and st: "\<forall>j<2. 0 \<le> spin_time busy_world j"
    by (simp_all add: busy_world_def)
  have d: "\<forall>j<2. lookup_time busy_world j + spin_time busy_world j + poll_interval \<le> 51 / 50"
    by (simp add: busy_world_def poll_interval_def)
  have N: "real 2 * (51 / 50) \<le> timeout_sec"
    by (simp add: timeout_sec_def)
  have l: "[0..<2] = [0, 1]" by (simp add: upt_rec)
  have "\<exists>tr'. acquire busy_world 0 (start_clock busy_world) [] []
             = Some (Some marker_at_standoff, 41 / 20,
                     [Frame_missing ''bowl'', Exception_entry], tr')"
    using acquire_after_failures_within [OF ok fail found lt st d N, of "[]"]
    by (auto simp: l numeral_2_eq_2) (simp_all add: busy_world_def poll_interval_def)
  then show ?thesis
    using N by (simp add: busy_world_def poll_interval_def)
qed

subsection \<open>Termination and the time of exit\<close>

text \<open>
  Claim C7, as the spec states it: the loop always terminates and is left within
  \<open>timeout + poll_interval\<close> of wall-clock time, each iteration advancing the clock by at
  least the sleep of one second. The bound fails. The timeout is tested once per
  iteration, after the lookup, so the loop is left up to one whole iteration after the
  timeout, and an iteration lasts as long as its lookup and \<^verbatim>\<open>spin_once\<close> take. In the run
  below the marker is never seen and \<^verbatim>\<open>spin_once\<close> takes 59 seconds: the tests read 0, 60
  and 120 seconds (not above 120), and the loop is left at 180 seconds, not within 121.
\<close>

theorem acquire_exit_after_bound:
  "acquire slow_world 0 (start_clock slow_world) [] [Log Info Waiting_for_transforms] =
     Some (None, 180,
       [Frame_missing ''bowl'', Frame_missing ''bowl'', Frame_missing ''bowl'', Frame_missing ''bowl''],
       [Log Info Waiting_for_transforms,
        Print_lookup ''bowl'', Log Error Could_not_detect, Spin_once, Sleep 1,
        Print_lookup ''bowl'', Log Error Could_not_detect, Spin_once, Sleep 1,
        Print_lookup ''bowl'', Log Error Could_not_detect, Spin_once, Sleep 1,
        Print_lookup ''bowl'', Log Error Could_not_detect])
   \<and> \<not> 180 - start_clock slow_world \<le> timeout_sec + poll_interval
   \<and> head_time slow_world 1 - head_time slow_world 0 \<ge> poll_interval
   \<and> head_time slow_world 2 - head_time slow_world 1 \<ge> poll_interval
   \<and> head_time slow_world 3 - head_time slow_world 2 \<ge> poll_interval"
  using acquire_slow_world
  by (simp add: slow_world_def timeout_sec_def poll_interval_def numeral_2_eq_2 numeral_3_eq_3)

text \<open>
  Claim C7, amended. When the lookup and \<^verbatim>\<open>spin_once\<close> take no negative time, so that
  every iteration advances the clock by at least the sleep, the loop terminates, with
  or without a transform. When moreover a lookup takes at most \<open>a\<close> and \<^verbatim>\<open>spin_once\<close> at most
  \<open>b\<close>, it is left no later than \<open>timeout + poll_interval + a + b\<close> after the start; this is
  \<open>timeout + poll_interval\<close> when both take no time.
\<close>

theorem acquire_terminates_within:
  assumes "\<forall>j. 0 \<le> lookup_time e j" and "\<forall>j. 0 \<le> spin_time e j"
  shows "\<exists>trans_base now missing tr'.
           acquire e 0 (start_clock e) [] tr = Some (trans_base, now, missing, tr')
         \<and> ((\<forall>j. lookup_time e j \<le> a \<and> spin_time e j \<le> b)
              \<longrightarrow> now - start_clock e \<le> timeout_sec + poll_interval + a + b)"
proof -
  obtain trans_base now missing tr' where
    r: "acquire e 0 (start_clock e) [] tr = Some (trans_base, now, missing, tr')"
    using acquire_terminates [OF assms, of 0 "start_clock e" "[]" tr] by (metis prod_cases4)
  have "now - start_clock e \<le> timeout_sec + poll_interval + a + b"
    if bounds: "\<forall>j. lookup_time e j \<le> a \<and> spin_time e j \<le> b"
  proof -
    have lt: "\<forall>j. 0 \<le> lookup_time e j \<and> lookup_time e j \<le> a"
      and st: "\<forall>j. 0 \<le> spin_time e j \<and> spin_time e j \<le> b"
      using assms bounds by auto
    obtain n :: nat where
      n: "timeout_sec + poll_interval - (start_clock e - start_clock e) \<le> real n"
      using real_arch_simple by blast
    have "0 \<le> b" using st [rule_format, of 0] by linarith
    then have "start_clock e - start_clock e \<le> timeout_sec + poll_interval + b"
      by (simp add: timeout_sec_def poll_interval_def)
    from acquire_exit_aux [OF lt st n this, of 0 "[]" tr] r show ?thesis
      by auto
  qed
  with r show ?thesis by blast
qed

theorem acquire_terminates_within_witness:
  "(\<forall>j. 0 \<le> lookup_time slow_world j) \<and> (\<forall>j. 0 \<le> spin_time slow_world j)
   \<and> (\<forall>j. lookup_time slow_world j \<le> 0 \<and> spin_time slow_world j \<le> 59)
   \<and> (\<exists>trans_base now missing tr'.
         acquire slow_world 0 (start_clock slow_world) [] [Log Info Waiting_for_transforms]
           = Some (trans_base, now, missing, tr')
       \<and> now - start_clock slow_world \<le> timeout_sec + poll_interval + 0 + 59)"
proof -
  have h1: "\<forall>j. 0 \<le> lookup_time slow_world j" by (simp add: slow_world_def)
  have h2: "\<forall>j. 0 \<le> spin_time slow_world j" by (simp add: slow_world_def)
  have h3: "\<forall>j. lookup_time slow_world j \<le> 0 \<and> spin_time slow_world j \<le> 59"
    by (simp add: slow_world_def)
  show ?thesis
    using h1 h2 h3
      acquire_terminates_within [OF h1 h2, of "[Log Info Waiting_for_transforms]" 0 59]
    by blast
qed

end
